theory Spec2Isabelle
  imports Complex_Main
begin

section \<open>Numbers and strings of the script\<close>

text \<open>
  The numbers of \<^verbatim>\<open>script.js\<close> are modelled as reals: finite values with exact
  arithmetic. Values read with \<^verbatim>\<open>parseInt\<close> are integers. Where the script
  divides, the zero divisor is a case of its own in the model; the remainder operator
  \<^verbatim>\<open>%\<close> takes the sign of its dividend.
\<close>

definition js_trunc :: "real \<Rightarrow> int" where
  "js_trunc x = (if 0 \<le> x then \<lfloor>x\<rfloor> else \<lceil>x\<rceil>)"

definition js_rem :: "real \<Rightarrow> real \<Rightarrow> real" where
  "js_rem a b = a - b * of_int (js_trunc (a / b))"

fun string_of_nat :: "nat \<Rightarrow> string" where
  "string_of_nat n =
     (if n < 10 then [char_of (48 + n)]
      else string_of_nat (n div 10) @ [char_of (48 + n mod 10)])"

definition string_of_int :: "int \<Rightarrow> string" where
  "string_of_int i = (if i < 0 then CHR ''-'' # string_of_nat (nat (- i)) else string_of_nat (nat i))"

definition padStart :: "nat \<Rightarrow> char \<Rightarrow> string \<Rightarrow> string" where
  "padStart n c str = replicate (n - length str) c @ str"

section \<open>State\<close>

type_synonym chunk = string
type_synonym touch = "real \<times> real"

datatype callback = RenderLoop | UpdateRecordTimer

datatype handler = PushChunk | SaveVideo

datatype js_error = TypeError | AcquisitionError

datatype canvas_op =
    Save
  | SetFilter "(string \<times> real) list"
  | DrawImage real real real real real real real real
  | DrawImageNonFinite
  | SetFillStyle string
  | FillRectRandom real real
  | Restore

record blob =
  blobData :: string
  blobType :: string

text \<open>
  A \<^verbatim>\<open>MediaRecorder\<close> object: the three event handler slots and where the recorder
  is in its life. \<open>Inactive\<close>: created, not started. \<open>Recording\<close>: started.
  \<open>Stopping\<close>: stopped by \<^verbatim>\<open>stop()\<close> or by a failure, its last data and its stop
  event still to be fired. \<open>Finished\<close>: the stop event has been fired.
\<close>

datatype phase = Inactive | Recording | Stopping | Finished

record recorder =
  ondataavailable :: "handler option"
  onstop :: "handler option"
  onerror :: "handler option"
  phase :: phase

text \<open>A call of \<^verbatim>\<open>getUserMedia\<close> that has not settled yet.\<close>

record request =
  facingMode :: string
  frameRate :: int
  fromBoot :: bool

text \<open>
  The first sixteen fields are the \<^verbatim>\<open>let\<close> variables of the script, in its
  order. The others are what the script reads from and writes to the page: the video
  element, the canvas and its drawing context (as the list of operations issued), the
  controls, the animation-frame queue, the recorder objects, the camera streams whose
  tracks are live, and the files handed to the download link.
\<close>

record state =
  "stream" :: "nat option"
  currentFacing :: string
  currentMode :: string
  currentFilter :: string
  zoom :: real
  maxZoom :: real
  exposure :: real
  recording :: bool
  mediaRecorder :: "nat option"
  recordedChunks :: "chunk list"
  recordStartTime :: real
  recordTimerRAF :: "nat option"
  targetFPS :: int
  lastFrameTime :: real
  pinchStartDistance :: "real option"
  pinchStartZoom :: real
  devicePixelRatio :: real
  readyState :: nat
  videoWidth :: real
  videoHeight :: real
  srcObject :: "nat option"
  canvasWidth :: real
  canvasHeight :: real
  rectWidth :: real
  rectHeight :: real
  ctxOps :: "canvas_op list"
  zoomSliderValue :: real
  saveFormat :: string
  recordTimerText :: string
  recordRingActive :: bool
  rafQueue :: "(nat \<times> callback) list"
  rafNext :: nat
  recorders :: "recorder list"
  toBlobPending :: "string list"
  downloads :: "(string \<times> blob) list"
  liveStreams :: "nat list"
  pendingRequests :: "request list"
  pendingPlays :: nat
  nextStreamId :: nat
  uncaught :: "js_error list"
  alerts :: "string list"

definition init_state :: "real \<Rightarrow> real \<Rightarrow> real \<Rightarrow> state" where
  "init_state ratio rw rh =
     \<lparr> stream = None, currentFacing = ''environment'', currentMode = ''photo'',
       currentFilter = ''none'', zoom = 1, maxZoom = 5, exposure = 0, recording = False,
       mediaRecorder = None, recordedChunks = [], recordStartTime = 0,
       recordTimerRAF = None, targetFPS = 60, lastFrameTime = 0,
       pinchStartDistance = None, pinchStartZoom = 1,
       devicePixelRatio = ratio, readyState = 0, videoWidth = 0, videoHeight = 0,
       srcObject = None, canvasWidth = 300, canvasHeight = 150, rectWidth = rw,
       rectHeight = rh, ctxOps = [], zoomSliderValue = 1, saveFormat = ''png'',
       recordTimerText = ''00:00'', recordRingActive = False, rafQueue = [], rafNext = 1,
       recorders = [], toBlobPending = [], downloads = [], liveStreams = [],
       pendingRequests = [], pendingPlays = 0, nextStreamId = 0, uncaught = [],
       alerts = [] \<rparr>"

text \<open>\<^verbatim>\<open>const dpr = window.devicePixelRatio || 1\<close>: zero is falsy.\<close>

definition dpr :: "state \<Rightarrow> real" where
  "dpr s = (if devicePixelRatio s = 0 then 1 else devicePixelRatio s)"

section \<open>Animation frames\<close>

definition requestAnimationFrame :: "callback \<Rightarrow> state \<Rightarrow> nat \<times> state" where
  "requestAnimationFrame cb s =
     (rafNext s, s\<lparr>rafQueue := rafQueue s @ [(rafNext s, cb)], rafNext := Suc (rafNext s)\<rparr>)"

definition cancelAnimationFrame :: "nat option \<Rightarrow> state \<Rightarrow> state" where
  "cancelAnimationFrame h s =
     (case h of
        None \<Rightarrow> s
      | Some i \<Rightarrow> s\<lparr>rafQueue := filter (\<lambda>e. fst e \<noteq> i) (rafQueue s)\<rparr>)"

section \<open>Filter pipeline\<close>

text \<open>
  \<^verbatim>\<open>buildFilterString\<close> returns the CSS filter list
  \<^verbatim>\<open>brightness(b) contrast(c) saturate(s)\<close>; the model keeps the three function
  names with their arguments.
\<close>

definition buildFilterString :: "state \<Rightarrow> (string \<times> real) list" where
  "buildFilterString s =
     (let brightness = 1 + exposure s * 0.15;
          contrast = (if currentFilter s = ''cinema'' then 1.15 else 1);
          saturation =
            (if currentFilter s = ''bw'' then 0
             else if currentFilter s = ''vivid'' then 1.3
             else 1)
      in [(''brightness'', brightness), (''contrast'', contrast), (''saturate'', saturation)])"

text \<open>
  \<^verbatim>\<open>applyFilmGrain\<close>: the loop \<^verbatim>\<open>for (i = 0; i < count; i++)\<close> runs
  \<open>\<lceil>count\<rceil>\<close> times for a positive \<open>count\<close> and never otherwise; each round fills a
  unit square at a random place of the \<open>w \<times> h\<close> surface.
\<close>

definition applyFilmGrain :: "real \<Rightarrow> real \<Rightarrow> canvas_op list" where
  "applyFilmGrain w h =
     (let grainDensity = 0.015; count = w * h * grainDensity
      in SetFillStyle ''rgba(255,255,255,0.03)'' # replicate (nat \<lceil>count\<rceil>) (FillRectRandom w h))"

section \<open>Render loop\<close>

text \<open>
  With \<open>zoom = 0\<close> the source rectangle of \<^verbatim>\<open>drawImage\<close> is not finite; the model
  records that call as \<open>DrawImageNonFinite\<close>.
\<close>

definition drawFrame :: "state \<Rightarrow> state" where
  "drawFrame s =
     (if readyState s < 2 then s
      else
        let vw = videoWidth s; vh = videoHeight s;
            cw = canvasWidth s / dpr s; ch = canvasHeight s / dpr s;
            blit =
              (if zoom s = 0 then DrawImageNonFinite
               else
                 let zoomedW = vw / zoom s; zoomedH = vh / zoom s;
                     sx = (vw - zoomedW) / 2; sy = (vh - zoomedH) / 2
                 in DrawImage sx sy zoomedW zoomedH 0 0 cw ch)
        in s\<lparr>ctxOps := ctxOps s @ [Save, SetFilter (buildFilterString s), blit]
                 @ (if currentFilter s = ''film'' then applyFilmGrain cw ch else [])
                 @ [Restore]\<rparr>)"

text \<open>
  \<^verbatim>\<open>frameInterval = 1000 / targetFPS\<close>; with \<open>targetFPS = 0\<close> it is infinite and
  no finite \<open>delta\<close> reaches it.
\<close>

definition frameInterval :: "state \<Rightarrow> real option" where
  "frameInterval s = (if targetFPS s = 0 then None else Some (1000 / of_int (targetFPS s)))"

definition renderLoop :: "real \<Rightarrow> state \<Rightarrow> state" where
  "renderLoop now s =
     (let delta = now - lastFrameTime s;
          s1 = (case frameInterval s of
                  None \<Rightarrow> s
                | Some fi \<Rightarrow>
                    if delta \<ge> fi
                    then drawFrame (s\<lparr>lastFrameTime := now - js_rem delta fi\<rparr>)
                    else s)
      in snd (requestAnimationFrame RenderLoop s1))"

definition resizeCanvas :: "state \<Rightarrow> state" where
  "resizeCanvas s =
     s\<lparr>canvasWidth := of_int \<lfloor>rectWidth s * dpr s\<rfloor>,
       canvasHeight := of_int \<lfloor>rectHeight s * dpr s\<rfloor>\<rparr>"

section \<open>Zoom, exposure and filter controls\<close>

definition setZoom :: "real \<Rightarrow> state \<Rightarrow> state" where
  "setZoom v s =
     (let z = min (max v 1) (maxZoom s)
      in s\<lparr>zoom := z, zoomSliderValue := z\<rparr>)"

text \<open>\<^verbatim>\<open>getPinchDistance\<close> reads \<^verbatim>\<open>touches[0]\<close> and \<^verbatim>\<open>touches[1]\<close>.\<close>

fun getPinchDistance :: "touch list \<Rightarrow> real option" where
  "getPinchDistance (t0 # t1 # ts) =
     (let dx = fst t0 - fst t1; dy = snd t0 - snd t1
      in Some (sqrt (dx * dx + dy * dy)))"
| "getPinchDistance ts = None"

definition touchstart :: "touch list \<Rightarrow> state \<Rightarrow> state" where
  "touchstart touches s =
     (if length touches = 2
      then s\<lparr>pinchStartDistance := getPinchDistance touches, pinchStartZoom := zoom s\<rparr>
      else s)"

text \<open>A pinch start distance is truthy when it is a number other than zero.\<close>

definition touchmove :: "touch list \<Rightarrow> state \<Rightarrow> state" where
  "touchmove touches s =
     (case pinchStartDistance s of
        None \<Rightarrow> s
      | Some d0 \<Rightarrow>
          if length touches = 2 \<and> d0 \<noteq> 0
          then (case getPinchDistance touches of
                  None \<Rightarrow> s\<lparr>uncaught := uncaught s @ [TypeError]\<rparr>
                | Some d1 \<Rightarrow> (let scale = d1 / d0 in setZoom (pinchStartZoom s * scale) s))
          else s)"

definition touchend :: "state \<Rightarrow> state" where
  "touchend s = s\<lparr>pinchStartDistance := None\<rparr>"

definition zoomSliderInput :: "real \<Rightarrow> state \<Rightarrow> state" where
  "zoomSliderInput v s = setZoom v (s\<lparr>zoomSliderValue := v\<rparr>)"

definition maxZoomChange :: "int \<Rightarrow> state \<Rightarrow> state" where
  "maxZoomChange n s = (let s1 = s\<lparr>maxZoom := of_int n\<rparr> in setZoom (zoom s1) s1)"

definition exposureInput :: "real \<Rightarrow> state \<Rightarrow> state" where
  "exposureInput v s = s\<lparr>exposure := v\<rparr>"

definition filterChipClick :: "string \<Rightarrow> state \<Rightarrow> state" where
  "filterChipClick f s = s\<lparr>currentFilter := f\<rparr>"

definition modePhotoClick :: "state \<Rightarrow> state" where
  "modePhotoClick s = s\<lparr>currentMode := ''photo''\<rparr>"

definition modeVideoClick :: "state \<Rightarrow> state" where
  "modeVideoClick s = s\<lparr>currentMode := ''video''\<rparr>"

section \<open>Photo capture\<close>

text \<open>
  \<^verbatim>\<open>canvas.toBlob\<close> encodes in the background and calls back later; the request
  waits in \<open>toBlobPending\<close> with its MIME type. The flash and the shutter sound have
  no effect on the state modelled here.
\<close>

definition capturePhoto :: "state \<Rightarrow> state" where
  "capturePhoto s = s\<lparr>toBlobPending := toBlobPending s @ [''image/'' @ saveFormat s]\<rparr>"

definition photoBlobReady :: "nat \<Rightarrow> string option \<Rightarrow> state \<Rightarrow> state" where
  "photoBlobReady dateNow data s =
     (case toBlobPending s of
        [] \<Rightarrow> s
      | m # ms \<Rightarrow>
          (case data of
             None \<Rightarrow> s\<lparr>toBlobPending := ms, uncaught := uncaught s @ [TypeError]\<rparr>
           | Some d \<Rightarrow>
               s\<lparr>toBlobPending := ms,
                 downloads := downloads s @
                   [(''photo_'' @ string_of_nat dateNow @ ''.'' @ saveFormat s,
                     \<lparr>blobData = d, blobType = m\<rparr>)]\<rparr>))"

section \<open>Video recording\<close>

definition updateRecordTimer :: "real \<Rightarrow> state \<Rightarrow> state" where
  "updateRecordTimer now s =
     (if \<not> recording s then s
      else
        let elapsed = \<lfloor>(now - recordStartTime s) / 1000\<rfloor>;
            mins = padStart 2 (CHR ''0'') (string_of_int (elapsed div 60));
            sec = padStart 2 (CHR ''0'') (string_of_int (js_trunc (js_rem (of_int elapsed) 60)));
            s1 = s\<lparr>recordTimerText := mins @ '':'' @ sec\<rparr>;
            r = requestAnimationFrame UpdateRecordTimer s1
        in (snd r)\<lparr>recordTimerRAF := Some (fst r)\<rparr>)"

text \<open>
  \<^verbatim>\<open>start()\<close> takes an inactive recorder to recording; \<^verbatim>\<open>stop()\<close> takes a
  recording one to stopping and does nothing to a recorder that is not recording.
\<close>

definition recorderStart :: "recorder \<Rightarrow> recorder" where
  "recorderStart r = (if phase r = Inactive then r\<lparr>phase := Recording\<rparr> else r)"

definition recorderStop :: "recorder \<Rightarrow> recorder" where
  "recorderStop r = (if phase r = Recording then r\<lparr>phase := Stopping\<rparr> else r)"

text \<open>
  \<^verbatim>\<open>startRecording\<close> creates a recorder, empties the chunk buffer, installs
  \<^verbatim>\<open>ondataavailable\<close> and \<^verbatim>\<open>onstop\<close> (and nothing else), and starts the
  recorder. \<open>t0\<close> and \<open>t1\<close> are the two readings of \<^verbatim>\<open>performance.now()\<close>, the
  second one inside \<^verbatim>\<open>updateRecordTimer\<close>.
\<close>

definition startRecording :: "real \<Rightarrow> real \<Rightarrow> state \<Rightarrow> state" where
  "startRecording t0 t1 s =
     (let r0 = \<lparr>ondataavailable = None, onstop = None, onerror = None, phase = Inactive\<rparr>;
          r = recorderStart (r0\<lparr>ondataavailable := Some PushChunk, onstop := Some SaveVideo\<rparr>);
          s1 = s\<lparr>mediaRecorder := Some (length (recorders s)),
                 recorders := recorders s @ [r],
                 recordedChunks := [],
                 recordStartTime := t0,
                 recording := True,
                 recordRingActive := True\<rparr>
      in updateRecordTimer t1 s1)"

definition stopRecording :: "state \<Rightarrow> state" where
  "stopRecording s =
     (let s1 = s\<lparr>recording := False, recordRingActive := False\<rparr>
      in case mediaRecorder s1 of
           None \<Rightarrow> s1\<lparr>uncaught := uncaught s1 @ [TypeError]\<rparr>
         | Some i \<Rightarrow>
             cancelAnimationFrame (recordTimerRAF s1)
               (s1\<lparr>recorders := (recorders s1)[i := recorderStop (recorders s1 ! i)]\<rparr>))"

definition saveVideo :: "nat \<Rightarrow> state \<Rightarrow> state" where
  "saveVideo dateNow s =
     (let b = \<lparr>blobData = concat (recordedChunks s), blobType = ''video/webm''\<rparr>
      in s\<lparr>downloads := downloads s @ [(''video_'' @ string_of_nat dateNow @ ''.webm'', b)],
           recordTimerText := ''00:00''\<rparr>)"

text \<open>
  The events a recorder fires. \<open>Stopped\<close> carries the reading of \<^verbatim>\<open>Date.now()\<close>
  its handler takes. A recorder fires data while it records and while it stops; it fires
  its stop event once, when it is stopping, and is finished then; it fires a failure
  while it records, and the failure stops it, so that its last data and its stop event
  follow. An event the recorder cannot fire in its phase does not happen. A fired event
  runs the handler installed in its slot of the recorder that fires it; an empty slot runs
  nothing.
\<close>

datatype recorder_event = DataAvailable chunk | Stopped nat | Failed

fun deliverable :: "recorder_event \<Rightarrow> phase \<Rightarrow> bool" where
  "deliverable (DataAvailable c) p = (p = Recording \<or> p = Stopping)"
| "deliverable (Stopped t) p = (p = Stopping)"
| "deliverable Failed p = (p = Recording)"

fun phaseAfter :: "recorder_event \<Rightarrow> phase \<Rightarrow> phase" where
  "phaseAfter (DataAvailable c) p = p"
| "phaseAfter (Stopped t) p = Finished"
| "phaseAfter Failed p = Stopping"

fun runHandler :: "handler \<Rightarrow> recorder_event \<Rightarrow> state \<Rightarrow> state" where
  "runHandler PushChunk (DataAvailable c) s = s\<lparr>recordedChunks := recordedChunks s @ [c]\<rparr>"
| "runHandler SaveVideo (Stopped t) s = saveVideo t s"
| "runHandler h ev s = s"

definition slot :: "recorder_event \<Rightarrow> recorder \<Rightarrow> handler option" where
  "slot ev r =
     (case ev of
        DataAvailable c \<Rightarrow> ondataavailable r
      | Stopped t \<Rightarrow> onstop r
      | Failed \<Rightarrow> onerror r)"

definition recorderFires :: "nat \<Rightarrow> recorder_event \<Rightarrow> state \<Rightarrow> state" where
  "recorderFires i ev s =
     (if i < length (recorders s) \<and> deliverable ev (phase (recorders s ! i))
      then
        let r = recorders s ! i;
            s1 = s\<lparr>recorders := (recorders s)[i := r\<lparr>phase := phaseAfter ev (phase r)\<rparr>]\<rparr>
        in case slot ev r of
             None \<Rightarrow> s1
           | Some h \<Rightarrow> runHandler h ev s1
      else s)"

definition captureClick :: "real \<Rightarrow> real \<Rightarrow> state \<Rightarrow> state" where
  "captureClick t0 t1 s =
     (if currentMode s = ''photo'' then capturePhoto s
      else if recording s then stopRecording s
      else startRecording t0 t1 s)"

section \<open>Camera\<close>

text \<open>
  \<^verbatim>\<open>initCamera\<close> is asynchronous. Its first part stops the tracks of the current
  stream, if there is one, and calls \<^verbatim>\<open>getUserMedia\<close>; the call waits in
  \<open>pendingRequests\<close>. When the camera is granted, the second part stores the new stream
  and starts playback; when playback has started, the third part resizes the canvas and
  schedules the render loop. \<open>liveStreams\<close> are the streams that hold the camera.
\<close>

definition stopTracks :: "nat \<Rightarrow> state \<Rightarrow> state" where
  "stopTracks h s = s\<lparr>liveStreams := removeAll h (liveStreams s)\<rparr>"

definition initCamera :: "bool \<Rightarrow> state \<Rightarrow> state" where
  "initCamera boot s =
     (let s1 = (case stream s of None \<Rightarrow> s | Some h \<Rightarrow> stopTracks h s);
          constraints = \<lparr>facingMode = currentFacing s1, frameRate = targetFPS s1,
                          fromBoot = boot\<rparr>
      in s1\<lparr>pendingRequests := pendingRequests s1 @ [constraints]\<rparr>)"

definition userMediaResolved :: "nat \<Rightarrow> state \<Rightarrow> state" where
  "userMediaResolved k s =
     (if k < length (pendingRequests s)
      then
        let h = nextStreamId s
        in s\<lparr>pendingRequests := take k (pendingRequests s) @ drop (Suc k) (pendingRequests s),
             nextStreamId := Suc h,
             liveStreams := liveStreams s @ [h],
             stream := Some h,
             srcObject := Some h,
             pendingPlays := Suc (pendingPlays s)\<rparr>
      else s)"

text \<open>
  Only the call at boot has a \<^verbatim>\<open>catch\<close>, which raises the alert; a rejection of any
  other call is not handled.
\<close>

definition userMediaRejected :: "nat \<Rightarrow> state \<Rightarrow> state" where
  "userMediaRejected k s =
     (if k < length (pendingRequests s)
      then
        let r = pendingRequests s ! k;
            s1 = s\<lparr>pendingRequests := take k (pendingRequests s) @ drop (Suc k) (pendingRequests s)\<rparr>
        in if fromBoot r
           then s1\<lparr>alerts := alerts s1 @ [''Camera access failed. Please allow camera permissions.'']\<rparr>
           else s1\<lparr>uncaught := uncaught s1 @ [AcquisitionError]\<rparr>
      else s)"

definition playResolved :: "state \<Rightarrow> state" where
  "playResolved s =
     (if pendingPlays s = 0 then s
      else snd (requestAnimationFrame RenderLoop
                  (resizeCanvas (s\<lparr>pendingPlays := pendingPlays s - 1\<rparr>))))"

definition switchCameraClick :: "state \<Rightarrow> state" where
  "switchCameraClick s =
     initCamera False
       (s\<lparr>currentFacing := (if currentFacing s = ''environment'' then ''user'' else ''environment'')\<rparr>)"

definition fpsChange :: "int \<Rightarrow> state \<Rightarrow> state" where
  "fpsChange n s = initCamera False (s\<lparr>targetFPS := n\<rparr>)"

definition boot :: "real \<Rightarrow> real \<Rightarrow> real \<Rightarrow> state" where
  "boot ratio rw rh = initCamera True (init_state ratio rw rh)"

section \<open>Events\<close>

text \<open>
  A display tick takes the queued callbacks and runs them in order: \<open>now\<close> is the
  timestamp passed to them, \<open>perf\<close> the reading of \<^verbatim>\<open>performance.now()\<close> taken
  by \<^verbatim>\<open>updateRecordTimer\<close>.
\<close>

primrec runCallbacks :: "real \<Rightarrow> real \<Rightarrow> (nat \<times> callback) list \<Rightarrow> state \<Rightarrow> state" where
  "runCallbacks now perf [] s = s"
| "runCallbacks now perf (c # cs) s =
     runCallbacks now perf cs
       (case snd c of
          RenderLoop \<Rightarrow> renderLoop now s
        | UpdateRecordTimer \<Rightarrow> updateRecordTimer perf s)"

definition animationFrame :: "real \<Rightarrow> real \<Rightarrow> state \<Rightarrow> state" where
  "animationFrame now perf s = runCallbacks now perf (rafQueue s) (s\<lparr>rafQueue := []\<rparr>)"

definition videoReady :: "nat \<Rightarrow> real \<Rightarrow> real \<Rightarrow> state \<Rightarrow> state" where
  "videoReady rs w h s = s\<lparr>readyState := rs, videoWidth := w, videoHeight := h\<rparr>"

datatype event =
    AnimationFrame real real
  | VideoReady nat real real
  | ZoomSliderInput real
  | TouchStart "touch list"
  | TouchMove "touch list"
  | TouchEnd
  | MaxZoomChange int
  | ExposureInput real
  | FilterChipClick string
  | ModePhotoClick
  | ModeVideoClick
  | CaptureClick real real
  | PhotoBlobReady nat "string option"
  | RecorderFires nat recorder_event
  | SwitchCameraClick
  | FpsChange int
  | UserMediaResolved nat
  | UserMediaRejected nat
  | PlayResolved

fun dispatch :: "event \<Rightarrow> state \<Rightarrow> state" where
  "dispatch (AnimationFrame now perf) s = animationFrame now perf s"
| "dispatch (VideoReady rs w h) s = videoReady rs w h s"
| "dispatch (ZoomSliderInput v) s = zoomSliderInput v s"
| "dispatch (TouchStart ts) s = touchstart ts s"
| "dispatch (TouchMove ts) s = touchmove ts s"
| "dispatch TouchEnd s = touchend s"
| "dispatch (MaxZoomChange n) s = maxZoomChange n s"
| "dispatch (ExposureInput v) s = exposureInput v s"
| "dispatch (FilterChipClick f) s = filterChipClick f s"
| "dispatch ModePhotoClick s = modePhotoClick s"
| "dispatch ModeVideoClick s = modeVideoClick s"
| "dispatch (CaptureClick t0 t1) s = captureClick t0 t1 s"
| "dispatch (PhotoBlobReady t d) s = photoBlobReady t d s"
| "dispatch (RecorderFires i ev) s = recorderFires i ev s"
| "dispatch SwitchCameraClick s = switchCameraClick s"
| "dispatch (FpsChange n) s = fpsChange n s"
| "dispatch (UserMediaResolved k) s = userMediaResolved k s"
| "dispatch (UserMediaRejected k) s = userMediaRejected k s"
| "dispatch PlayResolved s = playResolved s"

primrec run :: "event list \<Rightarrow> state \<Rightarrow> state" where
  "run [] s = s"
| "run (e # es) s = run es (dispatch e s)"

section \<open>Observations on the drawing context\<close>

text \<open>
  Among the operations issued: the \<^verbatim>\<open>drawImage\<close> calls; the operations that only
  \<^verbatim>\<open>applyFilmGrain\<close> issues (its fill-style assignment and its marks); and the
  marks alone.
\<close>

fun isDrawImage :: "canvas_op \<Rightarrow> bool" where
  "isDrawImage (DrawImage sx sy sw sh dx dy dw dh) = True"
| "isDrawImage DrawImageNonFinite = True"
| "isDrawImage op = False"

fun isGrainPassOp :: "canvas_op \<Rightarrow> bool" where
  "isGrainPassOp (SetFillStyle c) = True"
| "isGrainPassOp (FillRectRandom w h) = True"
| "isGrainPassOp op = False"

fun isGrainMark :: "canvas_op \<Rightarrow> bool" where
  "isGrainMark (FillRectRandom w h) = True"
| "isGrainMark op = False"

definition drawCalls :: "state \<Rightarrow> canvas_op list" where
  "drawCalls s = filter isDrawImage (ctxOps s)"

definition grainPassOps :: "state \<Rightarrow> canvas_op list" where
  "grainPassOps s = filter isGrainPassOp (ctxOps s)"

definition grainMarks :: "state \<Rightarrow> canvas_op list" where
  "grainMarks s = filter isGrainMark (ctxOps s)"

section \<open>Scenarios\<close>

text \<open>
  Runs of the page used as concrete inputs below. \<open>ready30_state\<close>: the camera granted,
  the frame rate set to 30, the camera granted again, the video ready and playing. \<open>switching_state\<close>: the camera granted, the video ready, the
  render loop started and one frame drawn at 1000 ms; then the camera is switched, the new
  stream arrives and the video element, loading it, is not ready yet.
\<close>

definition ready30_state :: state where
  "ready30_state =
     run [UserMediaResolved 0, FpsChange 30, UserMediaResolved 0, VideoReady 4 1920 1080,
          PlayResolved]
       (boot 1 300 150)"

definition switching_state :: state where
  "switching_state =
     run [UserMediaResolved 0, VideoReady 4 1920 1080, PlayResolved, AnimationFrame 1000 1000,
          SwitchCameraClick, UserMediaResolved 0, VideoReady 0 0 0]
       (boot 1 300 150)"


definition recording_state :: state where
  "recording_state =
     run [ModeVideoClick, CaptureClick 5000 5001, RecorderFires 0 (DataAvailable ''abc'')]
       (boot 1 300 150)"

definition failing_state :: state where
  "failing_state =
     run [ModeVideoClick, CaptureClick 5000 5001, RecorderFires 0 (DataAvailable ''abc''),
          RecorderFires 0 Failed]
       (boot 1 300 150)"


definition active_state :: state where
  "active_state = run [UserMediaResolved 0, VideoReady 4 1920 1080, PlayResolved] (boot 1 300 150)"

section \<open>Observations on recording\<close>

text \<open>
  \<open>timerHandles\<close>: the handles of the queued \<^verbatim>\<open>updateRecordTimer\<close> callbacks.
  \<open>arrived i\<close>: the chunks in the data events of recorder \<open>i\<close> in a run, in order.
  \<open>session_event i\<close>: the events that may fall between the start of the recording on
  recorder \<open>i\<close> and its stop event: everything but a capture click and a stop or
  failure event of recorder \<open>i\<close> itself. \<open>allFinished\<close>: every
  recorder created so far has fired its stop event. \<open>inSession i p\<close>: recorder \<open>i\<close> is
  the newest one, carries the handlers \<^verbatim>\<open>startRecording\<close> gives it and is in phase
  \<open>p\<close>, and every older recorder is finished. \<open>timerInv\<close>: while recording, the one
  queued timer callback is the one \<^verbatim>\<open>recordTimerRAF\<close> names; otherwise none is
  queued. \<open>recInv\<close>: every recorder carries the handlers \<^verbatim>\<open>startRecording\<close>
  gives it, no error handler among them, and \<^verbatim>\<open>mediaRecorder\<close> names an existing
  recorder. \<open>videoDownloads\<close>: the video files among the downloads. \<open>photoInv\<close>: no
  photo being encoded has the video type. \<open>keepsChunks\<close>: the chunk buffer before is a
  prefix of the buffer after.
\<close>

definition timerHandles :: "(nat \<times> callback) list \<Rightarrow> nat list" where
  "timerHandles q = map fst (filter (\<lambda>e. snd e = UpdateRecordTimer) q)"



definition handlersOf :: "recorder \<Rightarrow> bool" where
  "handlersOf r =
     (ondataavailable r = Some PushChunk \<and> onstop r = Some SaveVideo \<and> onerror r = None)"

definition allFinished :: "state \<Rightarrow> bool" where
  "allFinished s = list_all (\<lambda>r. phase r = Finished) (recorders s)"

definition inSession :: "nat \<Rightarrow> phase \<Rightarrow> state \<Rightarrow> bool" where
  "inSession i p s =
     (length (recorders s) = Suc i
      \<and> list_all (\<lambda>r. phase r = Finished) (take i (recorders s))
      \<and> handlersOf (recorders s ! i)
      \<and> phase (recorders s ! i) = p)"


definition recInv :: "state \<Rightarrow> bool" where
  "recInv s =
     (list_all handlersOf (recorders s)
      \<and> (\<forall>i. mediaRecorder s = Some i \<longrightarrow> i < length (recorders s)))"

definition videoDownloads :: "state \<Rightarrow> (string \<times> blob) list" where
  "videoDownloads s = filter (\<lambda>d. blobType (snd d) = ''video/webm'') (downloads s)"


definition keepsChunks :: "state \<Rightarrow> state \<Rightarrow> bool" where
  "keepsChunks s s' = (take (length (recordedChunks s)) (recordedChunks s') = recordedChunks s)"

section \<open>Zoom clamping\<close>

text \<open>
  C5. \<^verbatim>\<open>setZoom\<close> stores \<open>min (max v 1) maxZoom\<close>: for every input \<open>v\<close> the stored
  zoom lies in \<open>[1, maxZoom]\<close> (the interval is inhabited when \<open>1 \<le> maxZoom\<close>), the bound
  itself is not touched, and clamping the clamped value again changes nothing.
\<close>

theorem setZoom_clamp:
  "(1 \<le> maxZoom s \<longrightarrow> 1 \<le> zoom (setZoom v s) \<and> zoom (setZoom v s) \<le> maxZoom s)
   \<and> maxZoom (setZoom v s) = maxZoom s
   \<and> setZoom (zoom (setZoom v s)) (setZoom v s) = setZoom v s"
  by (simp add: setZoom_def Let_def min_def max_def)

theorem setZoom_clamp_witness:
  "1 \<le> maxZoom (init_state 1 0 0) \<and> zoom (setZoom 7 (init_state 1 0 0)) \<le> 5
   \<and> 1 \<le> zoom (setZoom 7 (init_state 1 0 0))"
  using setZoom_clamp [of "init_state 1 0 0" 7] by (simp add: init_state_def)

section \<open>Crop rectangle\<close>

lemma filter_isDrawImage_applyFilmGrain [simp]: "filter isDrawImage (applyFilmGrain w h) = []"
  by (simp add: applyFilmGrain_def Let_def)

lemma filter_isGrainPassOp_applyFilmGrain [simp]:
  "filter isGrainPassOp (applyFilmGrain w h)
     = SetFillStyle ''rgba(255,255,255,0.03)''
         # replicate (nat \<lceil>w * h * (15 / 1000)\<rceil>) (FillRectRandom w h)"
  by (simp add: applyFilmGrain_def Let_def)

lemma filter_isGrainMark_applyFilmGrain [simp]:
  "filter isGrainMark (applyFilmGrain w h)
     = replicate (nat \<lceil>w * h * (15 / 1000)\<rceil>) (FillRectRandom w h)"
  by (simp add: applyFilmGrain_def Let_def)

text \<open>
  C3. A frame drawn from a ready source with a zoom other than zero issues exactly one
  \<^verbatim>\<open>drawImage\<close> call, whose source rectangle is the centred one:
  \<open>sx = (w - w/zoom)/2\<close>, \<open>sy = (h - h/zoom)/2\<close>, \<open>sw = w/zoom\<close>, \<open>sh = h/zoom\<close>;
  at zoom 1 it is the full frame \<open>(0, 0, w, h)\<close>.
\<close>

theorem drawFrame_crop:
  assumes "2 \<le> readyState s" and "zoom s \<noteq> 0"
  shows "drawCalls (drawFrame s) = drawCalls s @
           [DrawImage ((videoWidth s - videoWidth s / zoom s) / 2)
                      ((videoHeight s - videoHeight s / zoom s) / 2)
                      (videoWidth s / zoom s) (videoHeight s / zoom s)
                      0 0 (canvasWidth s / dpr s) (canvasHeight s / dpr s)]
         \<and> (zoom s = 1 \<longrightarrow>
              drawCalls (drawFrame s) = drawCalls s @
                [DrawImage 0 0 (videoWidth s) (videoHeight s)
                           0 0 (canvasWidth s / dpr s) (canvasHeight s / dpr s)])"
  using assms by (simp add: drawFrame_def drawCalls_def Let_def)

theorem drawFrame_crop_witness:
  "2 \<le> readyState (videoReady 4 1920 1080 (init_state 2 0 0))
   \<and> zoom (videoReady 4 1920 1080 (init_state 2 0 0)) \<noteq> 0
   \<and> drawCalls (drawFrame (videoReady 4 1920 1080 (init_state 2 0 0)))
       = [DrawImage 0 0 1920 1080 0 0 150 75]"
  using drawFrame_crop [of "videoReady 4 1920 1080 (init_state 2 0 0)"]
  by (simp add: videoReady_def init_state_def drawCalls_def dpr_def)

section \<open>Filter descriptor\<close>

text \<open>
  C4. The filter descriptor is a function of the exposure and the filter name alone:
  brightness is \<open>1 + exposure \<cdot> 0.15\<close>, contrast is 1.15 for \<open>cinema\<close> and 1 otherwise,
  saturation is 0 for \<open>bw\<close>, 1.3 for \<open>vivid\<close> and 1 otherwise. A drawn frame gets the
  grain pass if and only if the filter is \<open>film\<close>: with \<open>film\<close> the frame sets the grain
  fill style and draws exactly \<open>\<lceil>w \<cdot> h \<cdot> 0.015\<rceil>\<close> marks on the \<open>w \<times> h\<close> surface (at least
  one on a surface of positive area); with any other filter it issues no operation of the
  grain pass.
\<close>

theorem filter_descriptor:
  "buildFilterString s =
     [(''brightness'', 1 + exposure s * (15 / 100)),
      (''contrast'', if currentFilter s = ''cinema'' then 115 / 100 else 1),
      (''saturate'', if currentFilter s = ''bw'' then 0
                     else if currentFilter s = ''vivid'' then 13 / 10 else 1)]
   \<and> (exposure s = exposure s' \<and> currentFilter s = currentFilter s'
        \<longrightarrow> buildFilterString s = buildFilterString s')
   \<and> (2 \<le> readyState s \<longrightarrow>
        (grainPassOps (drawFrame s) \<noteq> grainPassOps s \<longleftrightarrow> currentFilter s = ''film''))
   \<and> (2 \<le> readyState s \<and> currentFilter s = ''film'' \<longrightarrow>
        grainPassOps (drawFrame s)
          = grainPassOps s @ SetFillStyle ''rgba(255,255,255,0.03)''
              # replicate (nat \<lceil>canvasWidth s / dpr s * (canvasHeight s / dpr s) * (15 / 1000)\<rceil>)
                  (FillRectRandom (canvasWidth s / dpr s) (canvasHeight s / dpr s))
        \<and> grainMarks (drawFrame s)
          = grainMarks s
              @ replicate (nat \<lceil>canvasWidth s / dpr s * (canvasHeight s / dpr s) * (15 / 1000)\<rceil>)
                  (FillRectRandom (canvasWidth s / dpr s) (canvasHeight s / dpr s)))
   \<and> (2 \<le> readyState s \<and> currentFilter s \<noteq> ''film'' \<longrightarrow>
        grainPassOps (drawFrame s) = grainPassOps s \<and> grainMarks (drawFrame s) = grainMarks s)
   \<and> (2 \<le> readyState s \<and> 0 < canvasWidth s / dpr s * (canvasHeight s / dpr s) \<longrightarrow>
        (grainMarks (drawFrame s) \<noteq> grainMarks s \<longleftrightarrow> currentFilter s = ''film''))"
proof -
  have pos: "0 < nat \<lceil>x * (15 / 1000)\<rceil>" if "0 < x" for x :: real
  proof -
    from that have "0 < x * (15 / 1000)" by simp
    then have "0 < \<lceil>x * (15 / 1000)\<rceil>" by (simp only: zero_less_ceiling)
    then show ?thesis by simp
  qed
  have d: "buildFilterString s =
     [(''brightness'', 1 + exposure s * (15 / 100)),
      (''contrast'', if currentFilter s = ''cinema'' then 115 / 100 else 1),
      (''saturate'', if currentFilter s = ''bw'' then 0
                     else if currentFilter s = ''vivid'' then 13 / 10 else 1)]"
    by (simp add: buildFilterString_def Let_def)
  have e: "exposure s = exposure s' \<and> currentFilter s = currentFilter s'
        \<longrightarrow> buildFilterString s = buildFilterString s'"
    by (simp add: buildFilterString_def Let_def)
  have g: "2 \<le> readyState s \<longrightarrow>
        (grainPassOps (drawFrame s) \<noteq> grainPassOps s \<longleftrightarrow> currentFilter s = ''film'')"
    by (simp add: drawFrame_def grainPassOps_def Let_def)
  have f: "2 \<le> readyState s \<and> currentFilter s = ''film'' \<longrightarrow>
        grainPassOps (drawFrame s)
          = grainPassOps s @ SetFillStyle ''rgba(255,255,255,0.03)''
              # replicate (nat \<lceil>canvasWidth s / dpr s * (canvasHeight s / dpr s) * (15 / 1000)\<rceil>)
                  (FillRectRandom (canvasWidth s / dpr s) (canvasHeight s / dpr s))
        \<and> grainMarks (drawFrame s)
          = grainMarks s
              @ replicate (nat \<lceil>canvasWidth s / dpr s * (canvasHeight s / dpr s) * (15 / 1000)\<rceil>)
                  (FillRectRandom (canvasWidth s / dpr s) (canvasHeight s / dpr s))"
    by (simp add: drawFrame_def grainPassOps_def grainMarks_def Let_def)
  have n: "2 \<le> readyState s \<and> currentFilter s \<noteq> ''film'' \<longrightarrow>
        grainPassOps (drawFrame s) = grainPassOps s \<and> grainMarks (drawFrame s) = grainMarks s"
    by (simp add: drawFrame_def grainPassOps_def grainMarks_def Let_def)
  have m: "2 \<le> readyState s \<and> 0 < canvasWidth s / dpr s * (canvasHeight s / dpr s) \<longrightarrow>
        (grainMarks (drawFrame s) \<noteq> grainMarks s \<longleftrightarrow> currentFilter s = ''film'')"
    using pos [of "canvasWidth s / dpr s * (canvasHeight s / dpr s)"]
    by (simp add: drawFrame_def grainMarks_def Let_def)
  from d e g f n m show ?thesis by blast
qed

theorem filter_descriptor_witness:
  "2 \<le> readyState (videoReady 4 640 480 (filterChipClick ''film'' (init_state 1 0 0)))
   \<and> currentFilter (videoReady 4 640 480 (filterChipClick ''film'' (init_state 1 0 0))) = ''film''
   \<and> 0 < canvasWidth (videoReady 4 640 480 (filterChipClick ''film'' (init_state 1 0 0)))
           / dpr (videoReady 4 640 480 (filterChipClick ''film'' (init_state 1 0 0)))
         * (canvasHeight (videoReady 4 640 480 (filterChipClick ''film'' (init_state 1 0 0)))
           / dpr (videoReady 4 640 480 (filterChipClick ''film'' (init_state 1 0 0))))
   \<and> grainMarks (drawFrame (videoReady 4 640 480 (filterChipClick ''film'' (init_state 1 0 0))))
       = replicate 675 (FillRectRandom 300 150)
   \<and> 2 \<le> readyState (videoReady 4 640 480 (init_state 1 0 0))
   \<and> currentFilter (videoReady 4 640 480 (init_state 1 0 0)) \<noteq> ''film''
   \<and> grainPassOps (drawFrame (videoReady 4 640 480 (init_state 1 0 0))) = []
   \<and> exposure (init_state 1 0 0) = exposure (init_state 2 0 0)
   \<and> currentFilter (init_state 1 0 0) = currentFilter (init_state 2 0 0)
   \<and> buildFilterString (init_state 1 0 0) = buildFilterString (init_state 2 0 0)"
  using filter_descriptor [of "videoReady 4 640 480 (filterChipClick ''film'' (init_state 1 0 0))"]
        filter_descriptor [of "videoReady 4 640 480 (init_state 1 0 0)"]
        filter_descriptor [of "init_state 1 0 0" "init_state 2 0 0"]
  by (simp add: videoReady_def filterChipClick_def init_state_def buildFilterString_def dpr_def
      grainMarks_def grainPassOps_def)

text \<open>
  C10. A filter name outside \<open>none\<close>, \<open>cinema\<close>, \<open>bw\<close>, \<open>vivid\<close>, \<open>film\<close>, set by
  a filter chip, behaves as \<open>none\<close>: contrast 1, saturation 1, the brightness of the
  exposure, the same drawing operations and no grain pass.
\<close>

theorem unknown_filter_as_none:
  assumes "f \<notin> {''none'', ''cinema'', ''bw'', ''vivid'', ''film''}"
  shows "buildFilterString (filterChipClick f s)
           = [(''brightness'', 1 + exposure s * (15 / 100)), (''contrast'', 1), (''saturate'', 1)]
       \<and> buildFilterString (filterChipClick f s) = buildFilterString (filterChipClick ''none'' s)
       \<and> ctxOps (drawFrame (filterChipClick f s)) = ctxOps (drawFrame (filterChipClick ''none'' s))
       \<and> grainPassOps (drawFrame (filterChipClick f s)) = grainPassOps s"
  using assms
  by (simp add: buildFilterString_def drawFrame_def grainPassOps_def filterChipClick_def Let_def
      dpr_def)

theorem unknown_filter_as_none_witness:
  "''sepia'' \<notin> {''none'', ''cinema'', ''bw'', ''vivid'', ''film''}
   \<and> buildFilterString (filterChipClick ''sepia'' (init_state 1 0 0))
       = [(''brightness'', 1), (''contrast'', 1), (''saturate'', 1)]"
  using unknown_filter_as_none [of "''sepia''" "init_state 1 0 0"]
  by (simp add: init_state_def)

section \<open>Stored zoom\<close>

lemma zoom_setZoom: "zoom (setZoom v s) = min (max v 1) (maxZoom s)"
  by (simp add: setZoom_def Let_def)

lemma maxZoom_setZoom: "maxZoom (setZoom v s) = maxZoom s"
  by (simp add: setZoom_def Let_def)

lemma setZoom_in_range:
  "1 \<le> maxZoom s \<Longrightarrow> 1 \<le> zoom (setZoom v s) \<and> zoom (setZoom v s) \<le> maxZoom (setZoom v s)"
  by (simp add: zoom_setZoom maxZoom_setZoom)

lemma touchmove_cases:
  "touchmove ts s = s
   \<or> (\<exists>es. touchmove ts s = s\<lparr>uncaught := es\<rparr>)
   \<or> (\<exists>v. touchmove ts s = setZoom v s)"
  by (auto simp: touchmove_def Let_def split: option.splits)

lemma touchmove_in_range:
  assumes "1 \<le> maxZoom s" and "zoom (touchmove ts s) \<noteq> zoom s"
  shows "1 \<le> zoom (touchmove ts s) \<and> zoom (touchmove ts s) \<le> maxZoom (touchmove ts s)"
  using touchmove_cases [of ts s] assms setZoom_in_range [of s] by auto

text \<open>
  C6. With a maximum of at least 1, the zoom stored by each operation that updates it lies
  in \<open>[1, maxZoom]\<close>: the slider input, the pinch update (which stores the clamped
  \<open>pinchStartZoom \<cdot> (distance / pinchStartDistance)\<close>), and a change of the maximum, which
  clamps the current zoom again under the new bound.
\<close>

theorem zoom_stored_in_range:
  "(1 \<le> maxZoom s \<longrightarrow>
      1 \<le> zoom (zoomSliderInput v s) \<and> zoom (zoomSliderInput v s) \<le> maxZoom (zoomSliderInput v s))
   \<and> (1 \<le> maxZoom s \<and> pinchStartDistance s = Some d0 \<and> d0 \<noteq> 0 \<longrightarrow>
        zoom (touchmove [a, b] s)
          = min (max (pinchStartZoom s * (sqrt ((fst a - fst b) * (fst a - fst b)
                                            + (snd a - snd b) * (snd a - snd b)) / d0)) 1) (maxZoom s)
        \<and> 1 \<le> zoom (touchmove [a, b] s) \<and> zoom (touchmove [a, b] s) \<le> maxZoom (touchmove [a, b] s))
   \<and> (1 \<le> maxZoom s \<and> zoom (touchmove ts s) \<noteq> zoom s \<longrightarrow>
        1 \<le> zoom (touchmove ts s) \<and> zoom (touchmove ts s) \<le> maxZoom (touchmove ts s))
   \<and> (1 \<le> n \<longrightarrow>
        1 \<le> zoom (maxZoomChange n s) \<and> zoom (maxZoomChange n s) \<le> maxZoom (maxZoomChange n s))"
proof (intro conjI impI)
  assume "1 \<le> maxZoom s"
  then show "1 \<le> zoom (zoomSliderInput v s)"
    and "zoom (zoomSliderInput v s) \<le> maxZoom (zoomSliderInput v s)"
    by (simp_all add: zoomSliderInput_def zoom_setZoom maxZoom_setZoom)
next
  assume h: "1 \<le> maxZoom s \<and> pinchStartDistance s = Some d0 \<and> d0 \<noteq> 0"
  then have eq: "touchmove [a, b] s
      = setZoom (pinchStartZoom s * (sqrt ((fst a - fst b) * (fst a - fst b)
                                          + (snd a - snd b) * (snd a - snd b)) / d0)) s"
    by (simp add: touchmove_def Let_def)
  show "zoom (touchmove [a, b] s)
          = min (max (pinchStartZoom s * (sqrt ((fst a - fst b) * (fst a - fst b)
                                            + (snd a - snd b) * (snd a - snd b)) / d0)) 1) (maxZoom s)"
    by (simp add: eq zoom_setZoom)
  from h show "1 \<le> zoom (touchmove [a, b] s)"
    and "zoom (touchmove [a, b] s) \<le> maxZoom (touchmove [a, b] s)"
    by (simp_all add: eq zoom_setZoom maxZoom_setZoom)
next
  assume "1 \<le> maxZoom s \<and> zoom (touchmove ts s) \<noteq> zoom s"
  then show "1 \<le> zoom (touchmove ts s)"
    and "zoom (touchmove ts s) \<le> maxZoom (touchmove ts s)"
    using touchmove_in_range [of s ts] by simp_all
next
  assume "1 \<le> n"
  then show "1 \<le> zoom (maxZoomChange n s)"
    and "zoom (maxZoomChange n s) \<le> maxZoom (maxZoomChange n s)"
    by (simp_all add: maxZoomChange_def Let_def zoom_setZoom maxZoom_setZoom)
qed

theorem zoom_stored_in_range_witness:
  "1 \<le> maxZoom (touchstart [(0, 0), (2, 0)] (zoomSliderInput 2 (init_state 1 0 0)))
   \<and> pinchStartDistance (touchstart [(0, 0), (2, 0)] (zoomSliderInput 2 (init_state 1 0 0))) = Some 2
   \<and> (2::real) \<noteq> 0
   \<and> zoom (touchmove [(0, 0), (3, 0)] (touchstart [(0, 0), (2, 0)] (zoomSliderInput 2 (init_state 1 0 0)))) = 3
   \<and> zoom (touchmove [(0, 0), (3, 0)] (touchstart [(0, 0), (2, 0)] (zoomSliderInput 2 (init_state 1 0 0))))
       \<noteq> zoom (touchstart [(0, 0), (2, 0)] (zoomSliderInput 2 (init_state 1 0 0)))
   \<and> (1::int) \<le> 3
   \<and> zoom (maxZoomChange 3 (zoomSliderInput 4 (init_state 1 0 0))) = 3
   \<and> zoom (zoomSliderInput 9 (init_state 1 0 0)) = 5"
  using zoom_stored_in_range [of "touchstart [(0, 0), (2, 0)] (zoomSliderInput 2 (init_state 1 0 0))"
           9 2 "(0, 0)" "(3, 0)" "[(0, 0), (3, 0)]" 3]
        zoom_stored_in_range [of "zoomSliderInput 4 (init_state 1 0 0)" 9 2 "(0, 0)" "(3, 0)" "[]" 3]
        zoom_stored_in_range [of "init_state 1 0 0" 9 2 "(0, 0)" "(3, 0)" "[]" 3]
  by (simp add: touchstart_def touchmove_def zoomSliderInput_def maxZoomChange_def setZoom_def
        init_state_def Let_def)

section \<open>Frame-interval gating\<close>

lemma renderLoop_skip:
  assumes "targetFPS s = 0 \<or> now - lastFrameTime s < 1000 / of_int (targetFPS s)"
  shows "renderLoop now s = s\<lparr>rafQueue := rafQueue s @ [(rafNext s, RenderLoop)], rafNext := Suc (rafNext s)\<rparr>"
  using assms by (auto simp: renderLoop_def frameInterval_def requestAnimationFrame_def Let_def)

lemma renderLoop_accept:
  assumes "targetFPS s \<noteq> 0" and "1000 / of_int (targetFPS s) \<le> now - lastFrameTime s"
  shows "renderLoop now s =
           (let s1 = drawFrame (s\<lparr>lastFrameTime := now - js_rem (now - lastFrameTime s) (1000 / of_int (targetFPS s))\<rparr>)
            in s1\<lparr>rafQueue := rafQueue s1 @ [(rafNext s1, RenderLoop)], rafNext := Suc (rafNext s1)\<rparr>)"
  using assms by (simp add: renderLoop_def frameInterval_def requestAnimationFrame_def Let_def)

lemma drawFrame_unready: "readyState s < 2 \<Longrightarrow> drawFrame s = s"
  by (simp add: drawFrame_def)

lemma drawFrame_keeps:
  "lastFrameTime (drawFrame s) = lastFrameTime s" "targetFPS (drawFrame s) = targetFPS s"
  "readyState (drawFrame s) = readyState s" "uncaught (drawFrame s) = uncaught s"
  "rafQueue (drawFrame s) = rafQueue s" "rafNext (drawFrame s) = rafNext s"
  by (simp_all add: drawFrame_def Let_def)

lemma drawCalls_drawFrame_ready:
  "2 \<le> readyState s \<Longrightarrow> length (drawCalls (drawFrame s)) = Suc (length (drawCalls s))"
  by (simp add: drawFrame_def drawCalls_def Let_def)

lemma drawCalls_update [simp]:
  "drawCalls (s\<lparr>lastFrameTime := t\<rparr>) = drawCalls s"
  "drawCalls (s\<lparr>rafQueue := q\<rparr>) = drawCalls s"
  "drawCalls (s\<lparr>rafNext := n\<rparr>) = drawCalls s"
  by (simp_all add: drawCalls_def)

lemma drawCalls_renderLoop_skip:
  "targetFPS s = 0 \<or> now - lastFrameTime s < 1000 / of_int (targetFPS s) \<Longrightarrow>
   drawCalls (renderLoop now s) = drawCalls s"
  by (simp add: renderLoop_skip)

lemma js_rem_45: "js_rem 45 (1000 / 30) = 35 / 3"
  by (simp add: js_rem_def js_trunc_def)

lemma lastFrameTime_renderLoop:
  "lastFrameTime (renderLoop now s)
     = (if targetFPS s \<noteq> 0 \<and> 1000 / of_int (targetFPS s) \<le> now - lastFrameTime s
        then now - js_rem (now - lastFrameTime s) (1000 / of_int (targetFPS s))
        else lastFrameTime s)"
  by (simp add: renderLoop_def frameInterval_def requestAnimationFrame_def Let_def drawFrame_keeps)

lemma js_rem_100: "js_rem 100 (1000 / 60) = 0"
  by (simp add: js_rem_def js_trunc_def)

lemma switching_state_fields:
  "readyState switching_state = 0" "lastFrameTime switching_state = 1000"
  "targetFPS switching_state = 60" "length (drawCalls switching_state) = 1"
  "rafQueue switching_state = [(2, RenderLoop)]"
  by (simp_all add: switching_state_def boot_def init_state_def initCamera_def userMediaResolved_def
      videoReady_def playResolved_def resizeCanvas_def requestAnimationFrame_def
      animationFrame_def renderLoop_def frameInterval_def drawFrame_def js_rem_def js_trunc_def
      switchCameraClick_def stopTracks_def drawCalls_def Let_def dpr_def)

lemma ready30_state_fields:
  "readyState ready30_state = 4" "lastFrameTime ready30_state = 0"
  "targetFPS ready30_state = 30" "drawCalls ready30_state = []"
  by (simp_all add: ready30_state_def boot_def init_state_def fpsChange_def initCamera_def
      userMediaResolved_def stopTracks_def videoReady_def playResolved_def resizeCanvas_def
      requestAnimationFrame_def drawCalls_def Let_def)

text \<open>
  C1, as the code has it. The gate measures the time since the baseline
  \<^verbatim>\<open>lastFrameTime\<close>, not since the last accepted draw: a tick issues a
  \<^verbatim>\<open>drawImage\<close> call only when \<open>now - lastFrameTime\<close> is at least
  \<open>1000 / targetFPS\<close>; on such a tick the new baseline is the tick time minus
  \<open>(now - lastFrameTime) mod (1000 / targetFPS)\<close>, which may lie before the tick, and a
  ready source is drawn once. At 30 frames per second, ticks 10 ms and 20 ms after the
  baseline draw nothing and the tick 25 ms later draws exactly one frame and moves the
  baseline by the remainder rule.
\<close>

theorem renderLoop_gating:
  "(drawCalls (renderLoop now s) \<noteq> drawCalls s \<longrightarrow>
      targetFPS s \<noteq> 0 \<and> 1000 / of_int (targetFPS s) \<le> now - lastFrameTime s)
   \<and> (targetFPS s \<noteq> 0 \<and> 1000 / of_int (targetFPS s) \<le> now - lastFrameTime s \<longrightarrow>
        lastFrameTime (renderLoop now s)
          = now - js_rem (now - lastFrameTime s) (1000 / of_int (targetFPS s))
        \<and> (2 \<le> readyState s \<longrightarrow>
             length (drawCalls (renderLoop now s)) = Suc (length (drawCalls s))))
   \<and> (targetFPS s = 30 \<and> 2 \<le> readyState s \<longrightarrow>
        drawCalls (renderLoop (lastFrameTime s + 10) s) = drawCalls s
        \<and> drawCalls (renderLoop (lastFrameTime s + 20) (renderLoop (lastFrameTime s + 10) s))
            = drawCalls s
        \<and> length (drawCalls (renderLoop (lastFrameTime s + 45)
              (renderLoop (lastFrameTime s + 20) (renderLoop (lastFrameTime s + 10) s))))
            = Suc (length (drawCalls s))
        \<and> lastFrameTime (renderLoop (lastFrameTime s + 45)
              (renderLoop (lastFrameTime s + 20) (renderLoop (lastFrameTime s + 10) s)))
            = lastFrameTime s + 45 - js_rem 45 (1000 / 30))"
proof (intro conjI impI)
  assume "drawCalls (renderLoop now s) \<noteq> drawCalls s"
  then have "\<not> (targetFPS s = 0 \<or> now - lastFrameTime s < 1000 / of_int (targetFPS s))"
    using drawCalls_renderLoop_skip [of s now] by blast
  then show "targetFPS s \<noteq> 0" and "1000 / of_int (targetFPS s) \<le> now - lastFrameTime s"
    by simp_all
next
  assume a: "targetFPS s \<noteq> 0 \<and> 1000 / of_int (targetFPS s) \<le> now - lastFrameTime s"
  then show "lastFrameTime (renderLoop now s)
          = now - js_rem (now - lastFrameTime s) (1000 / of_int (targetFPS s))"
    by (simp add: renderLoop_accept Let_def drawFrame_keeps)
  assume "2 \<le> readyState s"
  with a show "length (drawCalls (renderLoop now s)) = Suc (length (drawCalls s))"
    by (simp add: renderLoop_accept Let_def drawCalls_drawFrame_ready)
next
  assume a: "targetFPS s = 30 \<and> 2 \<le> readyState s"
  define s1 where "s1 = renderLoop (lastFrameTime s + 10) s"
  define s2 where "s2 = renderLoop (lastFrameTime s + 20) s1"
  have e1: "s1 = s\<lparr>rafQueue := rafQueue s @ [(rafNext s, RenderLoop)], rafNext := Suc (rafNext s)\<rparr>"
    unfolding s1_def using a by (intro renderLoop_skip) simp
  have e2: "s2 = s1\<lparr>rafQueue := rafQueue s1 @ [(rafNext s1, RenderLoop)], rafNext := Suc (rafNext s1)\<rparr>"
    unfolding s2_def using a by (intro renderLoop_skip) (simp add: e1)
  have k: "targetFPS s2 = 30" "lastFrameTime s2 = lastFrameTime s" "2 \<le> readyState s2"
    "drawCalls s2 = drawCalls s"
    using a by (simp_all add: e2 e1)
  show "drawCalls (renderLoop (lastFrameTime s + 10) s) = drawCalls s"
    using e1 by (simp add: s1_def [symmetric])
  show "drawCalls (renderLoop (lastFrameTime s + 20) (renderLoop (lastFrameTime s + 10) s))
            = drawCalls s"
    using k by (simp add: s1_def [symmetric] s2_def [symmetric])
  have acc: "targetFPS s2 \<noteq> 0" "1000 / of_int (targetFPS s2) \<le> (lastFrameTime s + 45) - lastFrameTime s2"
    using k by simp_all
  have e3: "renderLoop (lastFrameTime s + 45) s2 =
      (let s' = drawFrame (s2\<lparr>lastFrameTime := lastFrameTime s + 45
                  - js_rem (lastFrameTime s + 45 - lastFrameTime s2) (1000 / of_int (targetFPS s2))\<rparr>)
       in s'\<lparr>rafQueue := rafQueue s' @ [(rafNext s', RenderLoop)], rafNext := Suc (rafNext s')\<rparr>)"
    by (rule renderLoop_accept [OF acc])
  show "length (drawCalls (renderLoop (lastFrameTime s + 45)
              (renderLoop (lastFrameTime s + 20) (renderLoop (lastFrameTime s + 10) s))))
            = Suc (length (drawCalls s))"
    unfolding s1_def [symmetric] s2_def [symmetric] e3
    using k by (simp add: Let_def drawCalls_drawFrame_ready)
  show "lastFrameTime (renderLoop (lastFrameTime s + 45)
              (renderLoop (lastFrameTime s + 20) (renderLoop (lastFrameTime s + 10) s)))
            = lastFrameTime s + 45 - js_rem 45 (1000 / 30)"
    unfolding s1_def [symmetric] s2_def [symmetric] e3
    using k by (simp add: Let_def drawFrame_keeps)
qed

theorem renderLoop_gating_witness:
  "drawCalls (renderLoop 45 ready30_state) \<noteq> drawCalls ready30_state
   \<and> targetFPS ready30_state = 30 \<and> 2 \<le> readyState ready30_state
   \<and> 1000 / of_int (targetFPS ready30_state) \<le> 45 - lastFrameTime ready30_state
   \<and> lastFrameTime (renderLoop 45 ready30_state) = 45 - js_rem 45 (1000 / 30)
   \<and> drawCalls (renderLoop 20 (renderLoop 10 ready30_state)) = []
   \<and> length (drawCalls (renderLoop 45 (renderLoop 20 (renderLoop 10 ready30_state)))) = 1
   \<and> lastFrameTime (renderLoop 45 (renderLoop 20 (renderLoop 10 ready30_state)))
       = 45 - js_rem 45 (1000 / 30)"
proof -
  have h: "targetFPS ready30_state \<noteq> 0
      \<and> 1000 / of_int (targetFPS ready30_state) \<le> 45 - lastFrameTime ready30_state"
    by (simp add: ready30_state_fields)
  have r: "2 \<le> readyState ready30_state" by (simp add: ready30_state_fields)
  have "length (drawCalls (renderLoop 45 ready30_state)) = Suc (length (drawCalls ready30_state))"
    using renderLoop_gating [of 45 ready30_state] h r by blast
  then have d: "drawCalls (renderLoop 45 ready30_state) \<noteq> drawCalls ready30_state"
    by auto
  show ?thesis
    using renderLoop_gating [of 45 ready30_state] h r d
    by (simp add: ready30_state_fields)
qed

text \<open>
  C1 as stated fails: at 30 frames per second the tick at 45 ms is drawn and moves the
  baseline to 33.3 ms, so the tick at 67 ms is drawn too, 22 ms after the last accepted
  draw and less than one interval of 33.3 ms.
\<close>

theorem renderLoop_gating_counterexample:
  "targetFPS ready30_state = 30
   \<and> drawCalls ready30_state = []
   \<and> length (drawCalls (renderLoop 45 ready30_state)) = 1
   \<and> length (drawCalls (renderLoop 67 (renderLoop 45 ready30_state))) = 2
   \<and> (67 :: real) - 45 < 1000 / 30"
proof -
  define s1 where "s1 = renderLoop 45 ready30_state"
  have a0: "targetFPS ready30_state \<noteq> 0"
    "1000 / of_int (targetFPS ready30_state) \<le> 45 - lastFrameTime ready30_state"
    by (simp_all add: ready30_state_fields)
  have k1: "targetFPS s1 = 30" "2 \<le> readyState s1" "length (drawCalls s1) = 1"
    "lastFrameTime s1 = 100 / 3"
    unfolding s1_def using js_rem_45
    by (simp_all add: renderLoop_accept [OF a0] Let_def drawFrame_keeps drawCalls_drawFrame_ready
        ready30_state_fields)
  have a1: "targetFPS s1 \<noteq> 0" "1000 / of_int (targetFPS s1) \<le> 67 - lastFrameTime s1"
    by (simp_all add: k1)
  have "length (drawCalls (renderLoop 67 s1)) = 2"
    using k1 by (simp add: renderLoop_accept [OF a1] Let_def drawCalls_drawFrame_ready)
  then show ?thesis
    using k1 by (simp add: s1_def ready30_state_fields)
qed

section \<open>Ticks with an unready source\<close>

text \<open>
  C2, as the code has it. On a tick with \<open>readyState < 2\<close> nothing is drawn and no error
  is raised. The baseline stays where it was only when the elapsed time is below the frame
  interval; otherwise \<^verbatim>\<open>renderLoop\<close> has moved it by the remainder rule before
  \<^verbatim>\<open>drawFrame\<close> looks at the source.
\<close>

theorem unready_tick:
  assumes "readyState s < 2"
  shows "ctxOps (renderLoop now s) = ctxOps s
       \<and> uncaught (renderLoop now s) = uncaught s
       \<and> lastFrameTime (renderLoop now s)
           = (if targetFPS s \<noteq> 0 \<and> 1000 / of_int (targetFPS s) \<le> now - lastFrameTime s
              then now - js_rem (now - lastFrameTime s) (1000 / of_int (targetFPS s))
              else lastFrameTime s)"
proof (cases "targetFPS s \<noteq> 0 \<and> 1000 / of_int (targetFPS s) \<le> now - lastFrameTime s")
  case True
  then show ?thesis using assms
    by (simp add: renderLoop_accept Let_def drawFrame_unready)
next
  case False
  then have "targetFPS s = 0 \<or> now - lastFrameTime s < 1000 / of_int (targetFPS s)" by auto
  then have "renderLoop now s = s\<lparr>rafQueue := rafQueue s @ [(rafNext s, RenderLoop)], rafNext := Suc (rafNext s)\<rparr>"
    by (rule renderLoop_skip)
  then show ?thesis using False by auto
qed

theorem unready_tick_witness:
  "readyState switching_state < 2
   \<and> ctxOps (renderLoop 1100 switching_state) = ctxOps switching_state
   \<and> uncaught (renderLoop 1100 switching_state) = uncaught switching_state
   \<and> lastFrameTime (renderLoop 1100 switching_state) = 1100"
  using unready_tick [of switching_state 1100] js_rem_100
  by (simp add: switching_state_fields)

text \<open>
  C2 as stated fails: while the camera is being switched the source is unready, and the
  tick 100 ms after the last draw moves the baseline from 1000 to 1100.
\<close>

theorem unready_tick_counterexample:
  "readyState switching_state < 2
   \<and> lastFrameTime switching_state = 1000
   \<and> lastFrameTime (renderLoop 1100 switching_state) = 1100
   \<and> lastFrameTime (dispatch (AnimationFrame 1100 1100) switching_state) = 1100
   \<and> lastFrameTime (renderLoop 1100 switching_state) \<noteq> lastFrameTime switching_state"
proof -
  show ?thesis
    using js_rem_100
    by (simp add: switching_state_fields animationFrame_def lastFrameTime_renderLoop)
qed

section \<open>Recording lifecycle\<close>

declare string_of_nat.simps [simp del]

lemma timerHandles_simps [simp]:
  "timerHandles [] = []"
  "timerHandles (q @ [(h, RenderLoop)]) = timerHandles q"
  "timerHandles (q @ [(h, UpdateRecordTimer)]) = timerHandles q @ [h]"
  by (simp_all add: timerHandles_def)



text \<open>What the render loop leaves alone.\<close>

lemma drawFrame_rec:
  "recording (drawFrame s) = recording s" "recordedChunks (drawFrame s) = recordedChunks s"
  "downloads (drawFrame s) = downloads s" "recorders (drawFrame s) = recorders s"
  "mediaRecorder (drawFrame s) = mediaRecorder s" "recordTimerRAF (drawFrame s) = recordTimerRAF s"
  "recordTimerText (drawFrame s) = recordTimerText s" "recordStartTime (drawFrame s) = recordStartTime s"
  by (simp_all add: drawFrame_def Let_def)

lemma renderLoop_rec:
  "recording (renderLoop now s) = recording s" "recordedChunks (renderLoop now s) = recordedChunks s"
  "downloads (renderLoop now s) = downloads s" "recorders (renderLoop now s) = recorders s"
  "mediaRecorder (renderLoop now s) = mediaRecorder s"
  "recordTimerRAF (renderLoop now s) = recordTimerRAF s"
  "recordTimerText (renderLoop now s) = recordTimerText s"
  "timerHandles (rafQueue (renderLoop now s)) = timerHandles (rafQueue s)"
  by (simp_all add: renderLoop_def frameInterval_def requestAnimationFrame_def Let_def
      drawFrame_rec drawFrame_keeps)

lemma updateRecordTimer_rec:
  "recording (updateRecordTimer p s) = recording s"
  "recordedChunks (updateRecordTimer p s) = recordedChunks s"
  "downloads (updateRecordTimer p s) = downloads s"
  "recorders (updateRecordTimer p s) = recorders s"
  "mediaRecorder (updateRecordTimer p s) = mediaRecorder s"
  by (simp_all add: updateRecordTimer_def requestAnimationFrame_def Let_def)



lemma runCallbacks_rec:
  "recording (runCallbacks now p cs s) = recording s
   \<and> recordedChunks (runCallbacks now p cs s) = recordedChunks s
   \<and> downloads (runCallbacks now p cs s) = downloads s
   \<and> recorders (runCallbacks now p cs s) = recorders s
   \<and> mediaRecorder (runCallbacks now p cs s) = mediaRecorder s"
proof (induction cs arbitrary: s)
  case Nil
  then show ?case by simp
next
  case (Cons c cs)
  show ?case
    by (cases "snd c") (simp_all add: Cons.IH renderLoop_rec updateRecordTimer_rec)
qed







lemma animationFrame_rec:
  "recording (animationFrame now p s) = recording s"
  "recordedChunks (animationFrame now p s) = recordedChunks s"
  "downloads (animationFrame now p s) = downloads s"
  "recorders (animationFrame now p s) = recorders s"
  "mediaRecorder (animationFrame now p s) = mediaRecorder s"
  by (simp_all add: animationFrame_def runCallbacks_rec)





lemma runHandler_timer_fields:
  "recording (runHandler h ev s) = recording s"
  "rafQueue (runHandler h ev s) = rafQueue s"
  "recordTimerRAF (runHandler h ev s) = recordTimerRAF s"
  "mediaRecorder (runHandler h ev s) = mediaRecorder s"
  by (cases h; cases ev; simp add: saveVideo_def Let_def)+







lemma deliverable_Finished [simp]: "\<not> deliverable ev Finished"
  by (cases ev) simp_all

lemma recorderFires_undeliverable:
  "\<not> (i < length (recorders s) \<and> deliverable ev (phase (recorders s ! i))) \<Longrightarrow>
     recorderFires i ev s = s"
  by (auto simp: recorderFires_def)



lemma recorderFires_stopped:
  assumes "i < length (recorders s)" and "phase (recorders s ! i) = Stopping"
    and "onstop (recorders s ! i) = Some SaveVideo"
  shows "recorderFires i (Stopped t) s
           = saveVideo t (s\<lparr>recorders := (recorders s)[i := (recorders s ! i)\<lparr>phase := Finished\<rparr>]\<rparr>)"
  using assms by (simp add: recorderFires_def slot_def Let_def)

lemma recorderFires_failed:
  assumes "i < length (recorders s)" and "phase (recorders s ! i) = Recording"
    and "onerror (recorders s ! i) = None"
  shows "recorderFires i Failed s
           = s\<lparr>recorders := (recorders s)[i := (recorders s ! i)\<lparr>phase := Stopping\<rparr>]\<rparr>"
  using assms by (simp add: recorderFires_def slot_def Let_def)

lemma runHandler_other_fields:
  "recorders (runHandler h ev s) = recorders s"
  "toBlobPending (runHandler h ev s) = toBlobPending s"
  "currentMode (runHandler h ev s) = currentMode s"
  by (cases h; cases ev; simp add: saveVideo_def Let_def)+

lemma list_all_update:
  assumes "list_all P xs" and "\<And>r. P r \<Longrightarrow> P (f r)"
  shows "list_all P (xs[i := f (xs ! i)])"
proof (cases "i < length xs")
  case True
  with assms show ?thesis
    by (auto simp: list_all_length nth_list_update)
next
  case False
  then have "xs[i := f (xs ! i)] = xs" by (intro list_update_beyond) simp
  with assms(1) show ?thesis by simp
qed

text \<open>Every recorder of a reachable state carries the handlers of \<^verbatim>\<open>startRecording\<close>.\<close>

lemma handlersOf_phase [simp]: "handlersOf (r\<lparr>phase := p\<rparr>) = handlersOf r"
  by (simp add: handlersOf_def)

lemma handlersOf_recorderStop [simp]: "handlersOf (recorderStop r) = handlersOf r"
  by (simp add: recorderStop_def)

lemma startRecording_recInv: "recInv s \<Longrightarrow> recInv (startRecording t0 t1 s)"
  by (simp add: recInv_def startRecording_def updateRecordTimer_def requestAnimationFrame_def
      recorderStart_def handlersOf_def Let_def)

lemma stopRecording_recInv:
  assumes "recInv s"
  shows "recInv (stopRecording s)"
proof (cases "mediaRecorder s")
  case None
  with assms show ?thesis by (simp add: recInv_def stopRecording_def Let_def)
next
  case (Some i)
  have "list_all handlersOf ((recorders s)[i := recorderStop (recorders s ! i)])"
    using assms by (intro list_all_update) (simp_all add: recInv_def)
  with Some assms show ?thesis
    by (simp add: recInv_def stopRecording_def cancelAnimationFrame_def Let_def
        split: option.splits)
qed

lemma recorderFires_recInv:
  assumes "recInv s"
  shows "recInv (recorderFires i ev s)"
proof (cases "i < length (recorders s) \<and> deliverable ev (phase (recorders s ! i))")
  case False
  with assms show ?thesis by (simp add: recorderFires_undeliverable)
next
  case True
  have "list_all handlersOf
          ((recorders s)[i := (\<lambda>r. r\<lparr>phase := phaseAfter ev (phase r)\<rparr>) (recorders s ! i)])"
    using assms by (intro list_all_update) (simp_all add: recInv_def)
  with True assms show ?thesis
    by (simp add: recInv_def recorderFires_def Let_def runHandler_other_fields
        runHandler_timer_fields split: option.splits)
qed

lemma capturePhoto_recInv: "recInv s \<Longrightarrow> recInv (capturePhoto s)"
  by (auto simp: recInv_def capturePhoto_def split: option.splits)

lemma dispatch_recInv: "recInv s \<Longrightarrow> recInv (dispatch e s)"
proof (cases e)
  case (AnimationFrame now p)
  assume "recInv s"
  with AnimationFrame show ?thesis
    by (auto simp: recInv_def animationFrame_rec split: option.splits)
next
  case (CaptureClick t0 t1)
  assume "recInv s"
  with CaptureClick show ?thesis
    using startRecording_recInv [of s t0 t1] stopRecording_recInv [of s]
      capturePhoto_recInv [of s]
    by (simp add: captureClick_def)
next
  case (RecorderFires i ev)
  assume "recInv s"
  with RecorderFires show ?thesis by (simp add: recorderFires_recInv)
next
  case (TouchMove ts)
  assume "recInv s"
  with TouchMove show ?thesis
    by (auto simp: recInv_def touchmove_def setZoom_def Let_def split: option.splits)
next
  case (PhotoBlobReady t d)
  assume "recInv s"
  with PhotoBlobReady show ?thesis
    by (auto simp: recInv_def photoBlobReady_def split: option.splits list.splits)
next
  case (UserMediaRejected k)
  assume "recInv s"
  with UserMediaRejected show ?thesis
    by (auto simp: recInv_def userMediaRejected_def Let_def)
qed (auto simp: recInv_def videoReady_def zoomSliderInput_def setZoom_def touchstart_def
       touchend_def maxZoomChange_def exposureInput_def filterChipClick_def
       modePhotoClick_def modeVideoClick_def switchCameraClick_def
       fpsChange_def initCamera_def stopTracks_def userMediaResolved_def
       playResolved_def resizeCanvas_def requestAnimationFrame_def Let_def
       split: option.splits)

lemma run_recInv: "recInv s \<Longrightarrow> recInv (run es s)"
  by (induction es arbitrary: s) (simp_all add: dispatch_recInv)

lemma boot_recInv: "recInv (boot ratio rw rh)"
  by (simp add: recInv_def boot_def init_state_def initCamera_def Let_def)










lemma videoDownloads_cong: "downloads s' = downloads s \<Longrightarrow> videoDownloads s' = videoDownloads s"
  by (simp add: videoDownloads_def)





lemma startRecording_fields:
  "recordedChunks (startRecording t0 t1 s) = []"
  "recording (startRecording t0 t1 s)"
  "downloads (startRecording t0 t1 s) = downloads s"
  "toBlobPending (startRecording t0 t1 s) = toBlobPending s"
  "mediaRecorder (startRecording t0 t1 s) = Some (length (recorders s))"
  "allFinished s \<Longrightarrow> inSession (length (recorders s)) Recording (startRecording t0 t1 s)"
  by (simp_all add: startRecording_def updateRecordTimer_def requestAnimationFrame_def
      recorderStart_def inSession_def allFinished_def handlersOf_def Let_def)




lemma string_of_nat_digits: "string_of_nat 3 = ''3''" "string_of_nat 7 = ''7''"
  by code_simp+





section \<open>Recorder failure\<close>

lemma keepsChunks_refl: "recordedChunks s' = recordedChunks s \<Longrightarrow> keepsChunks s s'"
  by (simp add: keepsChunks_def)

lemma runHandler_keepsChunks: "keepsChunks s (runHandler h ev (s\<lparr>recorders := rs\<rparr>))"
  by (cases h; cases ev) (simp_all add: keepsChunks_def saveVideo_def Let_def)

lemma recorderFires_keepsChunks: "keepsChunks s (recorderFires i ev s)"
  using runHandler_keepsChunks [of s]
  by (simp add: recorderFires_def Let_def split: option.splits) (simp add: keepsChunks_def)

lemma dispatch_keepsChunks:
  "keepsChunks u (dispatch e u)
   \<or> ((\<exists>t0 t1. e = CaptureClick t0 t1) \<and> currentMode u \<noteq> ''photo'' \<and> \<not> recording u
       \<and> recordedChunks (dispatch e u) = [])"
proof (cases e)
  case (AnimationFrame now p)
  then show ?thesis by (simp add: keepsChunks_def animationFrame_rec)
next
  case (CaptureClick t0 t1)
  then show ?thesis
    by (auto simp: keepsChunks_def captureClick_def capturePhoto_def startRecording_fields
        stopRecording_def cancelAnimationFrame_def Let_def split: option.splits)
next
  case (RecorderFires i ev)
  then show ?thesis by (simp add: recorderFires_keepsChunks)
next
  case (TouchMove ts)
  then show ?thesis
    by (auto simp: keepsChunks_def touchmove_def setZoom_def Let_def split: option.splits)
next
  case (PhotoBlobReady t d)
  then show ?thesis
    by (auto simp: keepsChunks_def photoBlobReady_def split: option.splits list.splits)
next
  case (UserMediaRejected k)
  then show ?thesis by (auto simp: keepsChunks_def userMediaRejected_def Let_def)
qed (auto simp: keepsChunks_def videoReady_def zoomSliderInput_def setZoom_def touchstart_def
       touchend_def maxZoomChange_def exposureInput_def filterChipClick_def
       modePhotoClick_def modeVideoClick_def switchCameraClick_def
       fpsChange_def initCamera_def stopTracks_def userMediaResolved_def
       playResolved_def resizeCanvas_def requestAnimationFrame_def Let_def
       split: option.splits)

lemma recording_state_fields:
  "recording recording_state" "mediaRecorder recording_state = Some 0"
  "phase (recorders recording_state ! 0) = Recording"
  "recordedChunks recording_state = [''abc'']" "downloads recording_state = []"
  by (simp_all add: recording_state_def boot_def init_state_def initCamera_def
      modeVideoClick_def captureClick_def startRecording_def updateRecordTimer_def
      requestAnimationFrame_def recorderStart_def recorderFires_def slot_def Let_def)

text \<open>
  C8, as the code has it. \<^verbatim>\<open>startRecording\<close> installs no \<^verbatim>\<open>onerror\<close>
  handler, so the failure of the recorder during a recording changes nothing but the
  recorder itself: the recording flag stays set and the accumulated chunks are kept, and
  nothing is saved. When the failed recorder's stop event follows, the accumulated chunks
  are saved as a video file, the flag still set and the chunks still kept. No event removes
  a chunk from the buffer except a capture click that starts a new recording, which empties
  it.
\<close>

theorem sink_failure_ignored:
  assumes "s = run es (boot ratio rw rh)"
    and "recording s" and "mediaRecorder s = Some i" and "phase (recorders s ! i) = Recording"
    and "s' = dispatch (RecorderFires i Failed) s"
    and "s'' = dispatch (RecorderFires i (Stopped t)) s'"
  shows "s'\<lparr>recorders := recorders s\<rparr> = s
       \<and> recording s' \<and> recordedChunks s' = recordedChunks s \<and> downloads s' = downloads s
       \<and> downloads s''
           = downloads s @
               [(''video_'' @ string_of_nat t @ ''.webm'',
                 \<lparr>blobData = concat (recordedChunks s), blobType = ''video/webm''\<rparr>)]
       \<and> recording s'' \<and> recordedChunks s'' = recordedChunks s
       \<and> (keepsChunks u (dispatch e u)
          \<or> ((\<exists>t0 t1. e = CaptureClick t0 t1) \<and> currentMode u \<noteq> ''photo'' \<and> \<not> recording u
              \<and> recordedChunks (dispatch e u) = []))"
proof -
  have "recInv s"
    unfolding assms(1) by (intro run_recInv boot_recInv)
  with assms(3) have i: "i < length (recorders s)" and h: "handlersOf (recorders s ! i)"
    by (simp_all add: recInv_def list_all_length)
  from h have slots: "onerror (recorders s ! i) = None" "onstop (recorders s ! i) = Some SaveVideo"
    by (simp_all add: handlersOf_def)
  have f: "s' = s\<lparr>recorders := (recorders s)[i := (recorders s ! i)\<lparr>phase := Stopping\<rparr>]\<rparr>"
    unfolding assms(5) using recorderFires_failed [OF i assms(4) slots(1)] by simp
  have r': "i < length (recorders s')" "phase (recorders s' ! i) = Stopping"
    "onstop (recorders s' ! i) = Some SaveVideo"
    using i slots by (simp_all add: f)
  have g: "s'' = saveVideo t (s'\<lparr>recorders := (recorders s')[i := (recorders s' ! i)\<lparr>phase := Finished\<rparr>]\<rparr>)"
    unfolding assms(6) using recorderFires_stopped [OF r', of t] by simp
  have a: "s'\<lparr>recorders := recorders s\<rparr> = s" by (simp add: f)
  have b: "recording s'" "recordedChunks s' = recordedChunks s" "downloads s' = downloads s"
    using assms(2) by (simp_all add: f)
  have c: "downloads s''
           = downloads s @
               [(''video_'' @ string_of_nat t @ ''.webm'',
                 \<lparr>blobData = concat (recordedChunks s), blobType = ''video/webm''\<rparr>)]"
    "recording s''" "recordedChunks s'' = recordedChunks s"
    using b by (simp_all add: g saveVideo_def Let_def)
  from a b c dispatch_keepsChunks [of u e] show ?thesis by simp
qed

theorem sink_failure_ignored_witness:
  "recording recording_state
   \<and> mediaRecorder recording_state = Some 0
   \<and> phase (recorders recording_state ! 0) = Recording
   \<and> recording (dispatch (RecorderFires 0 Failed) recording_state)
   \<and> recordedChunks (dispatch (RecorderFires 0 Failed) recording_state) = [''abc'']
   \<and> downloads (dispatch (RecorderFires 0 Failed) recording_state) = []
   \<and> downloads (dispatch (RecorderFires 0 (Stopped 7))
                  (dispatch (RecorderFires 0 Failed) recording_state))
       = [(''video_7.webm'', \<lparr>blobData = ''abc'', blobType = ''video/webm''\<rparr>)]
   \<and> recordedChunks (dispatch (RecorderFires 0 (Stopped 7))
                       (dispatch (RecorderFires 0 Failed) recording_state)) = [''abc'']"
  using sink_failure_ignored [OF recording_state_def recording_state_fields(1,2,3) refl refl,
      of 7]
  by (simp add: recording_state_fields string_of_nat_digits)

lemma failing_state_fields:
  "recording failing_state" "recordedChunks failing_state = [''abc'']"
  "downloads failing_state = []" "0 < length (recorders failing_state)"
  "phase (recorders failing_state ! 0) = Stopping"
  "onstop (recorders failing_state ! 0) = Some SaveVideo"
  by (simp_all add: failing_state_def boot_def init_state_def initCamera_def modeVideoClick_def
      captureClick_def startRecording_def updateRecordTimer_def requestAnimationFrame_def
      recorderStart_def recorderFires_def slot_def saveVideo_def string_of_nat_digits Let_def)

text \<open>
  C8 as stated fails: after a failure during a recording the flag is still set and the chunk
  is still buffered, and the stop event that follows saves it as a file.
\<close>

theorem sink_failure_counterexample:
  "recording failing_state
   \<and> recordedChunks failing_state = [''abc'']
   \<and> downloads (dispatch (RecorderFires 0 (Stopped 7)) failing_state)
       = [(''video_7.webm'', \<lparr>blobData = ''abc'', blobType = ''video/webm''\<rparr>)]"
  by (simp add: recorderFires_stopped [OF failing_state_fields(4,5,6)] failing_state_fields(1,2,3)
      saveVideo_def string_of_nat_digits Let_def)


section \<open>Camera sessions\<close>

lemma active_state_fields:
  "stream active_state = Some 0" "liveStreams active_state = [0]"
  "pendingRequests active_state = []" "nextStreamId active_state = 1"
  by (simp_all add: active_state_def boot_def init_state_def initCamera_def userMediaResolved_def
      videoReady_def playResolved_def resizeCanvas_def requestAnimationFrame_def Let_def)

lemma initCamera_releases:
  "liveStreams (initCamera b s)
     = (case stream s of None \<Rightarrow> liveStreams s | Some h \<Rightarrow> removeAll h (liveStreams s))"
  "pendingRequests (initCamera b s)
     = pendingRequests s @ [\<lparr>facingMode = currentFacing s, frameRate = targetFPS s, fromBoot = b\<rparr>]"
  "nextStreamId (initCamera b s) = nextStreamId s"
  "stream (initCamera b s) = stream s"
  by (simp_all add: initCamera_def stopTracks_def Let_def split: option.splits)

lemma serial_change_single_handle:
  assumes "pendingRequests s = []" and "stream s = Some h" and "liveStreams s = [h]"
  shows "liveStreams (switchCameraClick s) = []"
    and "liveStreams (userMediaResolved 0 (switchCameraClick s)) = [nextStreamId s]"
    and "liveStreams (fpsChange n s) = []"
    and "liveStreams (userMediaResolved 0 (fpsChange n s)) = [nextStreamId s]"
  using assms
  by (simp_all add: switchCameraClick_def fpsChange_def userMediaResolved_def initCamera_releases
      Let_def)

text \<open>
  C9. The first part of \<^verbatim>\<open>initCamera\<close> stops the tracks of the stream it knows
  before it asks for the camera (\<open>serial_change_single_handle\<close>). A second change made
  while the first request is still outstanding finds only the old, stopped stream: both
  requests are granted, the first new stream is never stopped, and two streams hold the
  camera.
\<close>

theorem overlapping_switches_two_handles:
  "stream active_state = Some 0
   \<and> liveStreams active_state = [0]
   \<and> pendingRequests active_state = []
   \<and> liveStreams (run [SwitchCameraClick] active_state) = []
   \<and> length (pendingRequests (run [SwitchCameraClick, SwitchCameraClick] active_state)) = 2
   \<and> liveStreams (run [SwitchCameraClick, SwitchCameraClick, UserMediaResolved 0] active_state) = [1]
   \<and> liveStreams
        (run [SwitchCameraClick, SwitchCameraClick, UserMediaResolved 0, UserMediaResolved 0]
           active_state) = [1, 2]
   \<and> stream
        (run [SwitchCameraClick, SwitchCameraClick, UserMediaResolved 0, UserMediaResolved 0]
           active_state) = Some 2"
  by (simp add: active_state_fields switchCameraClick_def userMediaResolved_def initCamera_releases
      Let_def)

end
